theory Spec2Isabelle
  imports Complex_Main "HOL-Library.Multiset" "HOL-Library.AList" "HOL-Library.Char_ord"
    "HOL-Library.List_Lexorder" "HOL-Library.Log_Nat"
begin

section \<open>Labour cost and daily reports: the data model\<close>

text \<open>
  The repository is a React front end. Its logic is the cost formula (written twice, in
  the report screen and in the entry form), the grouping of persisted entries into
  daily reports, and the validation in front of the two writes to the hosted store.

  An optional field (\<open>overtime_multiplier?: number\<close>) is an \<open>option\<close>, with \<open>None\<close>
  for \<open>undefined\<close>. A string is a \<open>string\<close>.
\<close>

subsection \<open>Numbers\<close>

text \<open>
  A JavaScript \<open>number\<close> is a binary64 floating-point number. It is modelled as the
  real number that it denotes, and \<open>*\<close> and \<open>+\<close> as the runtime computes them: the
  exact product or sum, rounded to the nearest binary64 value, a tie going to the value
  with the even significand. Results of magnitude \<open>2 ^ 1024\<close> and more, which the
  runtime gives as \<open>Infinity\<close>, \<open>NaN\<close> and the sign of zero are outside the model.

  The numbers of the program are the binary64 values (\<open>isDouble\<close> below). A decimal
  that the source or an input writes denotes the binary64 value nearest to it, so
  \<open>12.35\<close> is \<open>round64 (1235 / 100)\<close>, which is not the real number \<open>1235 / 100\<close>.
  The operations below read their operands in this way.
\<close>

type_synonym number = real

text \<open>
  The binary exponent of a number other than 0: \<open>2 powi expo x \<le> \<bar>x\<bar> < 2 powi (expo x + 1)\<close>
  (see \<open>expo_lower\<close> and \<open>expo_upper\<close>), from the length in bits of the integer part,
  or of the inverse for a number below 1.
\<close>

definition expo :: "real \<Rightarrow> int" where
  "expo x =
     (let a = \<bar>x\<bar>
      in if 1 \<le> a then bitlen \<lfloor>a\<rfloor> - 1 else - bitlen (\<lceil>1 / a\<rceil> - 1))"

text \<open>The nearest integer, a tie going to the even one.\<close>

definition roundHalfEven :: "real \<Rightarrow> int" where
  "roundHalfEven y =
     (let n = \<lfloor>y\<rfloor>; d = y - of_int n
      in if d < 1 / 2 then n else if 1 / 2 < d then n + 1 else if even n then n else n + 1)"

text \<open>
  The exponent of the last place of the binary64 values around \<open>x\<close>: 52 below the
  exponent of \<open>x\<close>, and that of the subnormal numbers for \<open>x\<close> below \<open>2 powi - 1022\<close>.
\<close>

definition ulpExp :: "real \<Rightarrow> int" where
  "ulpExp x = max (expo x) (- 1022) - 52"

definition round64 :: "real \<Rightarrow> number" where
  "round64 x =
     (if x = 0 then 0
      else of_int (roundHalfEven (x * 2 powi (- ulpExp x))) * 2 powi (ulpExp x))"

text \<open>
  \<open>a * b\<close> and \<open>a + b\<close> of the runtime. The operands are binary64 values, which
  \<open>round64\<close> leaves as they are (\<open>round64_idem\<close>); an operand written as another real
  number is read as the binary64 value nearest to it.
\<close>

definition fmul :: "number \<Rightarrow> number \<Rightarrow> number" where
  "fmul a b = round64 (round64 a * round64 b)"

definition fadd :: "number \<Rightarrow> number \<Rightarrow> number" where
  "fadd a b = round64 (round64 a + round64 b)"

text \<open>
  The finite binary64 values: the numbers that rounding leaves as they are, within the
  range. An operation whose exact result is such a value does not round.
\<close>

definition isDouble :: "real \<Rightarrow> bool" where
  "isDouble x \<longleftrightarrow> round64 x = x \<and> \<bar>x\<bar> < 2 ^ 1024"

text \<open>\<open>interface Entry\<close> of the report screen: a persisted row of \<open>daily_entries\<close>.\<close>

record Entry =
  entry_date :: string
  category :: string
  rate :: number
  normal_hours :: number
  overtime_hours :: number
  num_workers :: number
  site_id :: string
  supervisor_email :: "string option"
  overtime_multiplier :: "number option"

text \<open>
  The elements of \<open>DailyReport.categories\<close>: \<open>{ name; workers; cost }\<close>.
\<close>

record CategoryTotal =
  name :: string
  workers :: number
  cost :: number

text \<open>\<open>interface DailyReport\<close>.\<close>

record DailyReport =
  date :: string
  totalWorkers :: number
  totalCost :: number
  entries :: "Entry list"
  categories :: "CategoryTotal list"

section \<open>The cost formula\<close>

text \<open>
  \<open>calculateTotalCost(rate, normalHours, overtimeHours, multiplier = 1.5, workers)\<close>
  of the report screen. The default of the parameter is taken when the argument is
  \<open>undefined\<close>, and only then.
\<close>

definition calculateTotalCost ::
  "number \<Rightarrow> number \<Rightarrow> number \<Rightarrow> number option \<Rightarrow> number \<Rightarrow> number" where
  "calculateTotalCost rate' normalHours overtimeHours multiplier workers' =
     (let m = (case multiplier of None \<Rightarrow> 1.5 | Some v \<Rightarrow> v);
          normalCost = fmul (fmul rate' normalHours) workers';
          otCost = fmul (fmul (fmul rate' overtimeHours) m) workers'
      in fadd normalCost otCost)"

text \<open>
  \<open>calculateCost(normalHours, overtimeHours, workerCount, hourlyRate, overtimeMultiplier)\<close>
  of the entry form. Every argument is required.
\<close>

definition calculateCost ::
  "number \<Rightarrow> number \<Rightarrow> number \<Rightarrow> number \<Rightarrow> number \<Rightarrow> number" where
  "calculateCost normalHours overtimeHours workerCount hourlyRate overtimeMultiplier =
     (let normalCost = fmul normalHours hourlyRate;
          overtimeCost = fmul (fmul overtimeHours hourlyRate) overtimeMultiplier
      in fmul (fadd normalCost overtimeCost) workerCount)"

text \<open>
  The five arguments and the seven products and sums of real numbers that the two
  functions round between them. When each is a binary64 value, no operation of either
  function rounds.
\<close>

definition noRounding :: "number \<Rightarrow> number \<Rightarrow> number \<Rightarrow> number \<Rightarrow> number \<Rightarrow> bool" where
  "noRounding r nh oh m wc \<longleftrightarrow>
     list_all isDouble
       [r, nh, oh, m, wc,
        r * nh, r * nh * wc, r * oh, r * oh * m, r * oh * m * wc,
        r * nh + r * oh * m, r * nh * wc + r * oh * m * wc]"

text \<open>
  \<open>entry.overtime_multiplier || 1.5\<close>: the right operand is taken when the left one
  is falsy, which for an optional number is \<open>undefined\<close> and \<open>0\<close>.
\<close>

definition entryMultiplier :: "Entry \<Rightarrow> number" where
  "entryMultiplier entry =
     (case overtime_multiplier entry of
        None \<Rightarrow> 1.5
      | Some v \<Rightarrow> if v = 0 then 1.5 else v)"

text \<open>
  The cost of one persisted entry, as the report aggregator, the spreadsheet export
  and the rendering of a report each compute it: the multiplier by
  \<open>entryMultiplier\<close>, then \<open>calculateTotalCost\<close>.
\<close>

definition entryCost :: "Entry \<Rightarrow> number" where
  "entryCost entry =
     calculateTotalCost (rate entry) (normal_hours entry) (overtime_hours entry)
       (Some (entryMultiplier entry)) (num_workers entry)"

section \<open>The report aggregator\<close>

text \<open>
  \<open>s.split(sep)\<close> for a separator of one character: the pieces of \<open>s\<close> between the
  occurrences of \<open>sep\<close>. The array that JavaScript returns is never empty (the empty
  string gives one empty piece), so the result is the piece at index 0 and the list of
  the pieces after it.
\<close>

fun split_str :: "char \<Rightarrow> string \<Rightarrow> string \<times> string list" where
  "split_str sep [] = ([], [])"
| "split_str sep (c # cs) =
     (let (p, ps) = split_str sep cs
      in if c = sep then ([], p # ps) else (c # p, ps))"

text \<open>
  \<open>const dateOnly = entry.entry_date.split("T")[0] || entry.entry_date.split(" ")[0]\<close>:
  the right operand is taken when the left one is falsy, which for a string is the
  empty string.
\<close>

definition dateOnlyOf :: "Entry \<Rightarrow> string" where
  "dateOnlyOf entry =
     (let t = fst (split_str CHR ''T'' (entry_date entry))
      in if t \<noteq> [] then t else fst (split_str CHR '' '' (entry_date entry)))"

text \<open>The report that a day starts with, when its key is not yet in \<open>grouped\<close>.\<close>

definition newReport :: "string \<Rightarrow> DailyReport" where
  "newReport dateOnly =
     \<lparr>date = dateOnly, totalWorkers = 0, totalCost = 0, entries = [], categories = []\<rparr>"

text \<open>
  The subtotal of the entry's category: \<open>categories.find((c) => c.name === entry.category)\<close>
  gives the first subtotal of that name, whose \<open>workers\<close> and \<open>cost\<close> are increased in
  place; when there is none, a new subtotal is pushed at the end.
\<close>

fun accumulateCategory :: "Entry \<Rightarrow> number \<Rightarrow> CategoryTotal list \<Rightarrow> CategoryTotal list" where
  "accumulateCategory entry tc [] =
     [\<lparr>name = category entry, workers = num_workers entry, cost = tc\<rparr>]"
| "accumulateCategory entry tc (c # cs) =
     (if name c = category entry
      then c\<lparr>workers := fadd (workers c) (num_workers entry), cost := fadd (cost c) tc\<rparr> # cs
      else c # accumulateCategory entry tc cs)"

text \<open>What the loop body does to the report of the entry's day.\<close>

definition addToReport :: "Entry \<Rightarrow> number \<Rightarrow> DailyReport \<Rightarrow> DailyReport" where
  "addToReport entry tc r =
     r\<lparr>totalWorkers := fadd (totalWorkers r) (num_workers entry),
       totalCost := fadd (totalCost r) tc,
       entries := entries r @ [entry],
       categories := accumulateCategory entry tc (categories r)\<rparr>"

text \<open>
  One iteration of \<open>for (const entry of entries)\<close>. The object \<open>grouped\<close> is an
  association list in the order in which the keys were added, which is the order of
  \<open>Object.values\<close> for keys that are not array indices (it lists those first; the
  sort that follows gives one result for every order, see \<open>sortReports_perm\<close>).
  A day key that names a member of \<open>Object.prototype\<close>, such as \<open>constructor\<close>,
  is outside the model.
\<close>

definition groupStep :: "(string \<times> DailyReport) list \<Rightarrow> Entry \<Rightarrow> (string \<times> DailyReport) list" where
  "groupStep grouped entry =
     (let dateOnly = dateOnlyOf entry;
          tc = entryCost entry;
          grouped' = (if map_of grouped dateOnly = None
                      then grouped @ [(dateOnly, newReport dateOnly)] else grouped)
      in AList.map_entry dateOnly (addToReport entry tc) grouped')"

text \<open>
  \<open>a.localeCompare(b)\<close> belongs to the runtime, which compares by the collation of
  the locale. It is modelled as the comparison of the strings character by character,
  which is how the specification reads it (``lexicographic compare on the ISO date
  string''). The two agree on days of the ISO shape (\<open>isoDay\<close> below): such strings
  differ first in a digit. The order of the reports is stated below for such days.
\<close>

definition localeCompare :: "string \<Rightarrow> string \<Rightarrow> int" where
  "localeCompare a b = (if a < b then - 1 else if a = b then 0 else 1)"

text \<open>
  \<open>.sort((a, b) => b.date.localeCompare(a.date))\<close>: a stable sort, written as an
  insertion sort. A report goes in front of the first report that the comparator does
  not put before it.
\<close>

text \<open>A day of the ISO shape, \<open>YYYY-MM-DD\<close>.\<close>

definition isDigit :: "char \<Rightarrow> bool" where
  "isDigit c \<longleftrightarrow> c \<in> set ''0123456789''"

definition isoDay :: "string \<Rightarrow> bool" where
  "isoDay s \<longleftrightarrow>
     length s = 10 \<and> list_all isDigit (take 4 s) \<and> s ! 4 = CHR ''-'' \<and>
     list_all isDigit (take 2 (drop 5 s)) \<and> s ! 7 = CHR ''-'' \<and>
     list_all isDigit (drop 8 s)"

definition compareReports :: "DailyReport \<Rightarrow> DailyReport \<Rightarrow> int" where
  "compareReports a b = localeCompare (date b) (date a)"

fun insertReport :: "DailyReport \<Rightarrow> DailyReport list \<Rightarrow> DailyReport list" where
  "insertReport a [] = [a]"
| "insertReport a (b # bs) =
     (if compareReports a b \<le> 0 then a # b # bs else b # insertReport a bs)"

definition sortReports :: "DailyReport list \<Rightarrow> DailyReport list" where
  "sortReports rs = foldr insertReport rs []"

definition groupEntriesByDate :: "Entry list \<Rightarrow> DailyReport list" where
  "groupEntriesByDate es = sortReports (map snd (foldl groupStep [] es))"

text \<open>
  \<open>downloadExcel\<close>: one row for each entry of each report, the cost computed again
  from the entry and rounded by \<open>Math.round\<close> (to the nearest integer, a half upwards).
  \<open>entry.supervisor_email || "Unknown"\<close> takes \<open>"Unknown"\<close> for a missing and for an
  empty address.
\<close>

record ExportRow =
  Date :: string
  Site :: string
  Category :: string
  Workers :: number
  Cost :: number
  Supervisor :: string




section \<open>What the aggregator computes, stated over the entries\<close>


definition dayEntries :: "string \<Rightarrow> Entry list \<Rightarrow> Entry list" where
  "dayEntries d es = filter (\<lambda>e. dateOnlyOf e = d) es"

definition categoriesOf :: "Entry list \<Rightarrow> CategoryTotal list" where
  "categoriesOf es = foldl (\<lambda>cs e. accumulateCategory e (entryCost e) cs) [] es"


definition reportOf :: "string \<Rightarrow> Entry list \<Rightarrow> DailyReport" where
  "reportOf d es =
     \<lparr>date = d,
      totalWorkers = foldl fadd 0 (map num_workers (dayEntries d es)),
      totalCost = foldl fadd 0 (map entryCost (dayEntries d es)),
      entries = dayEntries d es,
      categories = categoriesOf (dayEntries d es)\<rparr>"



section \<open>The screens that write to the store\<close>

text \<open>
  The hosted store and the authentication provider are collaborators. A handler is a
  function of the answers of the collaborators and of the component's state; it returns
  the new state and the effects in the order in which the handler causes them: the
  notifications shown (\<open>toast\<close>) and the calls made.
\<close>

datatype variant = Default | Destructive

datatype 'row effect =
  ShowToast string string variant
| InsertRows string "'row list"
| SelectRows string
| GetUser

fun insertsOf :: "'row effect list \<Rightarrow> 'row list list" where
  "insertsOf [] = []"
| "insertsOf (InsertRows table rows # effs) = rows # insertsOf effs"
| "insertsOf (_ # effs) = insertsOf effs"

fun toastsOf :: "'row effect list \<Rightarrow> (string \<times> string \<times> variant) list" where
  "toastsOf [] = []"
| "toastsOf (ShowToast title description v # effs) = (title, description, v) # toastsOf effs"
| "toastsOf (_ # effs) = toastsOf effs"

subsection \<open>WorkerCategoryManager\<close>

text \<open>
  \<open>newCategory\<close> holds \<open>name\<close>, \<open>short_code\<close>, \<open>hourly_rate\<close> and
  \<open>overtime_multiplier\<close>; the inserted row adds \<open>is_active\<close>, and a
  \<open>WorkerCategory\<close> read back from the store has an \<open>id\<close> too. The fields \<open>name\<close>,
  \<open>overtime_multiplier\<close> and \<open>id\<close> are written \<open>cat_name\<close>, \<open>cat_overtime_multiplier\<close>
  and \<open>cat_id\<close>: the first two names belong to the records above, the third to HOL.
\<close>

record NewCategory =
  cat_name :: string
  short_code :: string
  hourly_rate :: number
  cat_overtime_multiplier :: number

record CategoryRow = NewCategory +
  is_active :: bool

record WorkerCategory = CategoryRow +
  cat_id :: string

text \<open>The state of the component (\<open>categories\<close> is written \<open>mgr_categories\<close>).\<close>

record ManagerState =
  mgr_categories :: "WorkerCategory list"
  newCategory :: NewCategory
  editingId :: "string option"

text \<open>
  The answers of the store: to the insert of rows, an error message or none; to the
  query of all categories, an error message or the rows.
\<close>

record ManagerBackend =
  insertCategories :: "CategoryRow list \<Rightarrow> string option"
  selectCategories :: "string + WorkerCategory list"

definition fetchCategories ::
  "ManagerBackend \<Rightarrow> ManagerState \<Rightarrow> ManagerState \<times> CategoryRow effect list" where
  "fetchCategories backend s =
     (case selectCategories backend of
        Inl message \<Rightarrow>
          (s, [SelectRows ''worker_categories'',
               ShowToast ''Error fetching categories'' message Destructive])
      | Inr data \<Rightarrow> (s\<lparr>mgr_categories := data\<rparr>, [SelectRows ''worker_categories'']))"

text \<open>
  \<open>addCategory\<close>. The guard is \<open>!name || !short_code || hourly_rate <= 0\<close>, where a
  string is falsy when it is empty.
\<close>

definition addCategory ::
  "ManagerBackend \<Rightarrow> ManagerState \<Rightarrow> ManagerState \<times> CategoryRow effect list" where
  "addCategory backend s =
     (let draft = newCategory s in
      if cat_name draft = [] \<or> short_code draft = [] \<or> hourly_rate draft \<le> 0
      then (s, [ShowToast ''Validation Error'' ''Fill all fields'' Destructive])
      else
        let rows = [\<lparr>cat_name = cat_name draft, short_code = short_code draft,
                      hourly_rate = hourly_rate draft,
                      cat_overtime_multiplier = cat_overtime_multiplier draft,
                      is_active = True\<rparr>]
        in case insertCategories backend rows of
             Some message \<Rightarrow>
               (s, [InsertRows ''worker_categories'' rows, ShowToast ''Error'' message Destructive])
           | None \<Rightarrow>
               (let s' = s\<lparr>newCategory := \<lparr>cat_name = [], short_code = [], hourly_rate = 0,
                                              cat_overtime_multiplier = 1.5\<rparr>\<rparr>;
                    (s'', effs) = fetchCategories backend s'
                in (s'', [InsertRows ''worker_categories'' rows,
                          ShowToast ''Success'' ''Category added successfully'' Default] @ effs)))"

subsection \<open>DailyEntryForm\<close>

text \<open>
  A draft line of the entry form, \<open>interface WorkerEntry\<close>. The fields \<open>id\<close>,
  \<open>category\<close>, \<open>rate\<close> and \<open>totalCost\<close> carry the prefix \<open>we_\<close>, and those of
  \<open>currentEntry\<close> the prefix \<open>cur_\<close>.
\<close>

record WorkerEntry =
  we_id :: string
  we_category :: string
  normalHours :: number
  overtimeHours :: number
  workerCount :: number
  we_rate :: number
  we_totalCost :: number

record CurrentEntry =
  cur_category :: string
  cur_normalHours :: number
  cur_overtimeHours :: number
  cur_workerCount :: number

text \<open>The state of the component (\<open>entries\<close> is written \<open>form_entries\<close>).\<close>

record FormState =
  workerCategories :: "WorkerCategory list"
  selectedDate :: string
  siteId :: string
  form_entries :: "WorkerEntry list"
  currentEntry :: CurrentEntry

text \<open>The \<open>user\<close> of \<open>supabase.auth.getUser()\<close>: \<open>id\<close> and \<open>email\<close>.\<close>

record User =
  user_id :: string
  email :: "string option"

text \<open>
  A row as \<open>saveDaily\<close> sends it: the fields of a persisted \<open>Entry\<close>, without
  \<open>overtime_multiplier\<close>, with \<open>supervisor_id\<close> and \<open>total_cost\<close>.
\<close>

record DailyEntryRow = Entry +
  supervisor_id :: string
  total_cost :: number

text \<open>
  The answers of the collaborators: \<open>getUser\<close> gives \<open>user\<close> (or \<open>null\<close>) and
  \<open>error\<close> (or \<open>null\<close>); the insert gives an error message or none.
\<close>

record FormBackend =
  getUser :: "User option \<times> string option"
  insertDailyEntries :: "DailyEntryRow list \<Rightarrow> string option"

text \<open>A natural number in decimal, as a template literal prints \<open>formattedRows.length\<close>.\<close>

fun showNat :: "nat \<Rightarrow> string" where
  "showNat n =
     (if n < 10 then [''0123456789'' ! n]
      else showNat (n div 10) @ [''0123456789'' ! (n mod 10)])"

declare showNat.simps [simp del]

definition formatRow :: "string \<Rightarrow> string \<Rightarrow> User \<Rightarrow> WorkerEntry \<Rightarrow> DailyEntryRow" where
  "formatRow selDate site user entry =
     \<lparr>entry_date = selDate, category = we_category entry, rate = we_rate entry,
      normal_hours = normalHours entry, overtime_hours = overtimeHours entry,
      num_workers = workerCount entry, site_id = site, supervisor_email = email user,
      overtime_multiplier = None, supervisor_id = user_id user,
      total_cost = we_totalCost entry\<rparr>"

text \<open>
  \<open>saveDaily\<close>. The guards are \<open>!siteId\<close>, \<open>entries.length === 0\<close> and
  \<open>userError || !user\<close>; the write goes on only when \<open>getUser\<close> gives a user and no
  error.
\<close>

definition saveDaily ::
  "FormBackend \<Rightarrow> FormState \<Rightarrow> FormState \<times> DailyEntryRow effect list" where
  "saveDaily backend s =
     (if siteId s = []
      then (s, [ShowToast ''Site not selected'' ''Please select a site.'' Destructive])
      else if length (form_entries s) = 0
      then (s, [ShowToast ''No entries'' ''Add at least one entry before saving.'' Destructive])
      else
        case getUser backend of
          (Some user, None) \<Rightarrow>
            (let formattedRows = map (formatRow (selectedDate s) (siteId s) user) (form_entries s)
             in case insertDailyEntries backend formattedRows of
                  Some message \<Rightarrow>
                    (s, [GetUser, InsertRows ''daily_entries'' formattedRows,
                         ShowToast ''Save failed'' message Destructive])
                | None \<Rightarrow>
                    (s\<lparr>form_entries := []\<rparr>,
                     [GetUser, InsertRows ''daily_entries'' formattedRows,
                      ShowToast ''Entries saved''
                        (showNat (length formattedRows) @ '' entries saved for '' @ selectedDate s)
                        Default]))
        | _ \<Rightarrow>
            (s, [GetUser,
                 ShowToast ''User not authenticated'' ''Please log in to submit entries.''
                   Destructive]))"

section \<open>Example data\<close>

text \<open>
  The scenario of the specification: masons at 100 an hour, 8 normal and 2 overtime
  hours, 3 workers, multiplier 1.5; and a second entry on another day.
\<close>

definition masonEntry :: Entry where
  "masonEntry =
     \<lparr>entry_date = ''2025-06-01T10:00:00'', category = ''Mason'', rate = 100,
      normal_hours = 8, overtime_hours = 2, num_workers = 3, site_id = ''site1'',
      supervisor_email = None, overtime_multiplier = Some 1.5\<rparr>"

definition helperEntry :: Entry where
  "helperEntry =
     \<lparr>entry_date = ''2025-06-02'', category = ''Helper'', rate = 60,
      normal_hours = 8, overtime_hours = 0, num_workers = 2, site_id = ''site1'',
      supervisor_email = Some ''s@example.org'', overtime_multiplier = None\<rparr>"


definition zeroRateManager :: ManagerState where
  "zeroRateManager =
     \<lparr>mgr_categories = [],
      newCategory = \<lparr>cat_name = ''Mason'', short_code = ''M'', hourly_rate = 0,
                      cat_overtime_multiplier = 1.5\<rparr>,
      editingId = None\<rparr>"

definition acceptingStore :: ManagerBackend where
  "acceptingStore = \<lparr>insertCategories = (\<lambda>rows. None), selectCategories = Inr []\<rparr>"

definition masonDraft :: WorkerEntry where
  "masonDraft =
     \<lparr>we_id = ''1'', we_category = ''Mason (M)'', normalHours = 8, overtimeHours = 2,
      workerCount = 3, we_rate = 100, we_totalCost = 3300\<rparr>"

definition filledForm :: FormState where
  "filledForm =
     \<lparr>workerCategories = [], selectedDate = ''2025-06-01'', siteId = ''site1'',
      form_entries = [masonDraft],
      currentEntry = \<lparr>cur_category = [], cur_normalHours = 8, cur_overtimeHours = 0,
                       cur_workerCount = 1\<rparr>\<rparr>"

definition supervisor :: User where
  "supervisor = \<lparr>user_id = ''u1'', email = Some ''s@example.org''\<rparr>"

definition savingBackend :: FormBackend where
  "savingBackend = \<lparr>getUser = (Some supervisor, None), insertDailyEntries = (\<lambda>rows. None)\<rparr>"

definition failingBackend :: FormBackend where
  "failingBackend =
     \<lparr>getUser = (Some supervisor, None), insertDailyEntries = (\<lambda>rows. Some ''timeout'')\<rparr>"

definition signedOutBackend :: FormBackend where
  "signedOutBackend = \<lparr>getUser = (None, Some ''no session''), insertDailyEntries = (\<lambda>rows. None)\<rparr>"

section \<open>Rounding\<close>

text \<open>
  The exponent that \<open>expo\<close> computes is the one of the binade of its argument, so
  \<open>round64\<close> rounds to a significand of 53 bits. It leaves every number with such a
  significand as it is, and so what it returns.
\<close>

lemma two_powi_nonneg: "0 \<le> k \<Longrightarrow> (2::real) powi k = 2 ^ nat k"
  by (simp add: power_int_def)

lemma two_powi_neg: "(2::real) powi (- k) = 1 / 2 powi k"
  by (simp add: power_int_minus field_simps)

lemma two_powi_less_D: "(2::real) powi a < 2 powi b \<Longrightarrow> a < b"
proof (rule ccontr)
  assume less: "(2::real) powi a < 2 powi b" and "\<not> a < b"
  then have "b \<le> a" by simp
  then have "(2::real) powi b \<le> 2 powi a" by (rule power_int_increasing) simp
  with less show False by simp
qed

lemma expo_lower:
  assumes "x \<noteq> 0"
  shows "2 powi (expo x) \<le> \<bar>x\<bar>"
proof (cases "1 \<le> \<bar>x\<bar>")
  case True
  define n where "n = \<lfloor>\<bar>x\<bar>\<rfloor>"
  have npos: "0 < n" using True by (simp add: n_def)
  have e: "expo x = bitlen n - 1" using True by (simp add: expo_def n_def Let_def)
  have b1: "1 \<le> bitlen n" using npos by (simp add: bitlen_alt_def)
  have "2 ^ nat (bitlen n - 1) \<le> n" using bitlen_bounds [OF npos] by simp
  then have "(2::real) ^ nat (bitlen n - 1) \<le> of_int n"
    by (metis of_int_le_iff of_int_numeral of_int_power)
  also have "\<dots> \<le> \<bar>x\<bar>" by (simp add: n_def)
  finally show ?thesis using b1 by (simp add: e two_powi_nonneg)
next
  case False
  define y where "y = 1 / \<bar>x\<bar>"
  define n where "n = \<lceil>y\<rceil>"
  have xpos: "0 < \<bar>x\<bar>" using assms by simp
  have y1: "1 < y" using False xpos by (simp add: y_def)
  have n2: "2 \<le> n" using y1 by (simp add: n_def le_ceiling_iff)
  have e: "expo x = - bitlen (n - 1)" using False by (simp add: expo_def n_def y_def Let_def)
  have "n - 1 < 2 ^ nat (bitlen (n - 1))" using bitlen_bounds [of "n - 1"] n2 by simp
  then have "n \<le> 2 ^ nat (bitlen (n - 1))" by simp
  then have "of_int n \<le> (2::real) ^ nat (bitlen (n - 1))"
    by (metis of_int_le_iff of_int_numeral of_int_power)
  moreover have "y \<le> of_int n" by (simp add: n_def)
  ultimately have "y \<le> 2 ^ nat (bitlen (n - 1))" by linarith
  then have "1 / 2 ^ nat (bitlen (n - 1)) \<le> \<bar>x\<bar>"
    using xpos by (simp add: y_def field_simps)
  then show ?thesis
    using bitlen_nonneg [of "n - 1"] by (simp add: e two_powi_neg two_powi_nonneg)
qed

lemma expo_upper:
  assumes "x \<noteq> 0"
  shows "\<bar>x\<bar> < 2 powi (expo x + 1)"
proof (cases "1 \<le> \<bar>x\<bar>")
  case True
  define n where "n = \<lfloor>\<bar>x\<bar>\<rfloor>"
  have npos: "0 < n" using True by (simp add: n_def)
  have e: "expo x = bitlen n - 1" using True by (simp add: expo_def n_def Let_def)
  have "n < 2 ^ nat (bitlen n)" using bitlen_bounds [OF npos] by simp
  then have "n + 1 \<le> 2 ^ nat (bitlen n)" by simp
  then have "of_int (n + 1) \<le> (2::real) ^ nat (bitlen n)"
    by (metis of_int_le_iff of_int_numeral of_int_power)
  moreover have "\<bar>x\<bar> < of_int (n + 1)" by (simp add: n_def)
  ultimately show ?thesis using bitlen_nonneg [of n] by (simp add: e two_powi_nonneg)
next
  case False
  define y where "y = 1 / \<bar>x\<bar>"
  define n where "n = \<lceil>y\<rceil>"
  have xpos: "0 < \<bar>x\<bar>" using assms by simp
  have y1: "1 < y" using False xpos by (simp add: y_def)
  have n2: "2 \<le> n" using y1 by (simp add: n_def le_ceiling_iff)
  have e: "expo x = - bitlen (n - 1)" using False by (simp add: expo_def n_def y_def Let_def)
  have b1: "1 \<le> bitlen (n - 1)" using n2 by (simp add: bitlen_alt_def)
  have "2 ^ nat (bitlen (n - 1) - 1) \<le> n - 1" using bitlen_bounds [of "n - 1"] n2 by simp
  then have "(2::real) ^ nat (bitlen (n - 1) - 1) \<le> of_int (n - 1)"
    by (metis of_int_le_iff of_int_numeral of_int_power)
  moreover have "of_int (n - 1) < y" unfolding n_def by linarith
  ultimately have "(2::real) ^ nat (bitlen (n - 1) - 1) < y" by simp
  then have "\<bar>x\<bar> < 1 / 2 ^ nat (bitlen (n - 1) - 1)"
    using xpos by (simp add: y_def field_simps)
  also have "\<dots> = 2 powi (- (bitlen (n - 1) - 1))"
    using b1 by (simp only: two_powi_neg) (simp add: two_powi_nonneg)
  finally show ?thesis by (simp add: e)
qed

lemma expo_unique:
  assumes "2 powi e \<le> \<bar>x\<bar>" and "\<bar>x\<bar> < 2 powi (e + 1)"
  shows "expo x = e"
proof -
  have "(0::real) < 2 powi e" by simp
  then have "0 < \<bar>x\<bar>" using assms(1) by linarith
  then have nz: "x \<noteq> 0" by simp
  have "(2::real) powi e < 2 powi (expo x + 1)"
    using assms(1) expo_upper [OF nz] by linarith
  then have "e < expo x + 1" by (rule two_powi_less_D)
  moreover have "(2::real) powi (expo x) < 2 powi (e + 1)"
    using assms(2) expo_lower [OF nz] by linarith
  then have "expo x < e + 1" by (rule two_powi_less_D)
  ultimately show ?thesis by simp
qed

lemma round64_normal:
  assumes "2 powi e \<le> \<bar>x\<bar>" and "\<bar>x\<bar> < 2 powi (e + 1)" and "- 1022 \<le> e"
  shows "round64 x = of_int (roundHalfEven (x * 2 powi (52 - e))) * 2 powi (e - 52)"
proof -
  have "(0::real) < 2 powi e" by simp
  then have "0 < \<bar>x\<bar>" using assms(1) by linarith
  then have nz: "x \<noteq> 0" by simp
  have "expo x = e" using assms(1,2) by (rule expo_unique)
  then have "ulpExp x = e - 52" using assms(3) by (simp add: ulpExp_def)
  then show ?thesis using nz by (simp add: round64_def)
qed

lemma roundHalfEven_of_int: "roundHalfEven (of_int k) = k"
  by (simp add: roundHalfEven_def)

text \<open>A number with a significand of 53 bits and an exponent in the range is not rounded.\<close>

lemma round64_exact:
  assumes x: "x = of_int m * 2 powi e" and m: "\<bar>m\<bar> < 2 ^ 53" and e: "- 1074 \<le> e"
  shows "round64 x = x"
proof (cases "x = 0")
  case True
  then show ?thesis by (simp add: round64_def)
next
  case False
  have "2 powi (expo x) \<le> \<bar>x\<bar>" by (rule expo_lower [OF False])
  also have "\<bar>x\<bar> = \<bar>of_int m\<bar> * 2 powi e" by (simp add: x abs_mult)
  also have "\<dots> < 2 ^ 53 * 2 powi e"
  proof -
    have "\<bar>of_int m :: real\<bar> < 2 ^ 53"
      using m by (metis of_int_abs of_int_less_iff of_int_numeral of_int_power)
    then show ?thesis by (simp add: power_int_def)
  qed
  also have "\<dots> = 2 powi (53 + e)" by (simp add: power_int_add)
  finally have "expo x < 53 + e"
    by (rule two_powi_less_D)
  then have "ulpExp x \<le> e" using e by (simp add: ulpExp_def)
  define u where "u = ulpExp x"
  have u: "u \<le> e" using \<open>ulpExp x \<le> e\<close> by (simp add: u_def)
  define j where "j = nat (e - u)"
  have ej: "e = u + int j" using u by (simp add: j_def)
  have pw: "(2::real) powi e = 2 powi u * 2 ^ j"
    by (simp add: ej power_int_add)
  have unit: "(2::real) powi u * 2 powi (- u) = 1"
    by (simp add: power_int_minus)
  have "x * 2 powi (- u) = of_int m * 2 ^ j * (2 powi u * 2 powi (- u))"
    by (simp only: x pw) (simp only: mult_ac)
  then have scaled: "x * 2 powi (- u) = of_int (m * 2 ^ j)"
    by (simp only: unit) simp
  have "round64 x = of_int (roundHalfEven (x * 2 powi (- u))) * 2 powi u"
    using False by (simp add: round64_def u_def)
  also have "\<dots> = of_int (m * 2 ^ j) * 2 powi u"
    by (simp only: scaled roundHalfEven_of_int)
  also have "\<dots> = of_int m * (2 powi u * 2 ^ j)"
    by simp
  also have "\<dots> = x"
    by (simp only: x pw)
  finally show ?thesis .
qed



lemma round64_of_int: "\<bar>n\<bar> < 2 ^ 53 \<Longrightarrow> round64 (of_int n) = of_int n"
  by (rule round64_exact [where m = n and e = 0]) simp_all

lemma round64_numeral [simp]:
  "(numeral w :: int) < 2 ^ 53 \<Longrightarrow> round64 (numeral w) = numeral w"
  using round64_of_int [of "numeral w"] by simp

lemma round64_0 [simp]: "round64 0 = 0"
  by (simp add: round64_def)

lemma round64_1 [simp]: "round64 1 = 1"
  using round64_of_int [of 1] by simp

lemma isDouble_of_int:
  assumes "\<bar>n\<bar> < 2 ^ 53"
  shows "isDouble (of_int n)"
proof -
  have "\<bar>of_int n :: real\<bar> < 2 ^ 53"
    using assms by (metis of_int_abs of_int_less_iff of_int_numeral of_int_power)
  also have "(2::real) ^ 53 < 2 ^ 1024"
    by (rule power_strict_increasing) simp_all
  finally show ?thesis
    by (simp add: isDouble_def round64_of_int [OF assms])
qed

lemma isDouble_numeral [simp]: "(numeral w :: int) < 2 ^ 53 \<Longrightarrow> isDouble (numeral w)"
  using isDouble_of_int [of "numeral w"] by simp

lemma round64_three_halves [simp]: "round64 (3 / 2) = 3 / 2"
proof -
  have "(3 / 2 :: real) = of_int 3 * 2 powi (- 1)" by simp
  then show ?thesis by (rule round64_exact) simp_all
qed

lemma isDouble_1 [simp]: "isDouble 1"
  using isDouble_of_int [of 1] by simp

lemma isDouble_three_halves [simp]: "isDouble (3 / 2)"
  by (simp add: isDouble_def)

subsection \<open>Sums that do not round\<close>














section \<open>Properties of the cost formula\<close>

text \<open>
  For arguments that are binary64 values, when none of the products and sums rounds,
  both functions return the real value.
\<close>

lemma costs_without_rounding:
  assumes "noRounding r nh oh m wc"
  shows "calculateTotalCost r nh oh (Some m) wc = r * nh * wc + r * oh * m * wc"
    and "calculateCost nh oh wc r m = r * nh * wc + r * oh * m * wc"
proof -
  have i: "round64 r = r" "round64 nh = nh" "round64 oh = oh" "round64 m = m" "round64 wc = wc"
    using assms by (simp_all add: noRounding_def isDouble_def)
  have e1: "round64 (r * nh) = r * nh" and e2: "round64 (r * nh * wc) = r * nh * wc"
    and e3: "round64 (r * oh) = r * oh" and e4: "round64 (r * oh * m) = r * oh * m"
    and e5: "round64 (r * oh * m * wc) = r * oh * m * wc"
    and e6: "round64 (r * nh + r * oh * m) = r * nh + r * oh * m"
    and e7: "round64 (r * nh * wc + r * oh * m * wc) = r * nh * wc + r * oh * m * wc"
    using assms by (simp_all add: noRounding_def isDouble_def)
  show "calculateTotalCost r nh oh (Some m) wc = r * nh * wc + r * oh * m * wc"
    by (simp only: calculateTotalCost_def Let_def option.case fmul_def fadd_def
        i e1 e2 e3 e4 e5 e7)
  have c1: "round64 (nh * r) = r * nh"
    using e1 by (simp only: mult.commute [of nh r])
  have c3: "round64 (oh * r) = r * oh"
    using e3 by (simp only: mult.commute [of oh r])
  have c7: "round64 ((r * nh + r * oh * m) * wc) = r * nh * wc + r * oh * m * wc"
    using e7 by (simp only: distrib_right)
  show "calculateCost nh oh wc r m = r * nh * wc + r * oh * m * wc"
    by (simp only: calculateCost_def Let_def fmul_def fadd_def i c1 c3 e1 e3 e4 e6 c7)
qed

text \<open>
  The two functions at the rate written \<open>12.35\<close>, for 8 normal hours, 1 overtime hour,
  the multiplier 1.5 and 7 workers: \<open>821.275\<close> and \<open>821.2749999999999\<close>.
\<close>

lemma rate_1235: "round64 (1235 / 100) = 6952431924753203 / 562949953421312"
  by (subst round64_normal [where e = 3]) (simp_all add: roundHalfEven_def Let_def)

lemma costs_at_1235:
  "calculateTotalCost (6952431924753203 / 562949953421312) 8 1 (Some 1.5) 7 = 7224011296813875 / 8796093022208"
  "calculateCost 8 1 7 (6952431924753203 / 562949953421312) 1.5 = 3612005648406937 / 4398046511104"
proof -
  have i0: "round64 (6952431924753203 / 562949953421312) = 6952431924753203 / 562949953421312"
    by (rule round64_exact [where m = 6952431924753203 and e = "- 49"]) simp_all
  have i1: "round64 (8) = 8"
    by (rule round64_exact [where m = 8 and e = 0]) simp_all
  have t1: "fmul (6952431924753203 / 562949953421312) (8) = 6952431924753203 / 70368744177664"
    unfolding fmul_def i0 i1
    by (subst round64_normal [where e = 6]) (simp_all add: roundHalfEven_def Let_def)
  have i2: "round64 (6952431924753203 / 70368744177664) = 6952431924753203 / 70368744177664"
    by (rule round64_exact [where m = 6952431924753203 and e = "- 46"]) simp_all
  have i3: "round64 (7) = 7"
    by (rule round64_exact [where m = 7 and e = 0]) simp_all
  have t2: "fmul (6952431924753203 / 70368744177664) (7) = 6083377934159053 / 8796093022208"
    unfolding fmul_def i2 i3
    by (subst round64_normal [where e = 9]) (simp_all add: roundHalfEven_def Let_def)
  have i4: "round64 (1) = 1"
    by (rule round64_exact [where m = 1 and e = 0]) simp_all
  have t3: "fmul (6952431924753203 / 562949953421312) (1) = 6952431924753203 / 562949953421312"
    unfolding fmul_def i0 i4
    by (subst round64_normal [where e = 3]) (simp_all add: roundHalfEven_def Let_def)
  have i5: "round64 (1.5) = 1.5"
    by (rule round64_exact [where m = 3 and e = "- 1"]) simp_all
  have t4: "fmul (6952431924753203 / 562949953421312) (1.5) = 2607161971782451 / 140737488355328"
    unfolding fmul_def i0 i5
    by (subst round64_normal [where e = 4]) (simp_all add: roundHalfEven_def Let_def)
  have i6: "round64 (2607161971782451 / 140737488355328) = 2607161971782451 / 140737488355328"
    by (rule round64_exact [where m = 2607161971782451 and e = "- 47"]) simp_all
  have t5: "fmul (2607161971782451 / 140737488355328) (7) = 4562533450619289 / 35184372088832"
    unfolding fmul_def i6 i3
    by (subst round64_normal [where e = 7]) (simp_all add: roundHalfEven_def Let_def)
  have i7: "round64 (6083377934159053 / 8796093022208) = 6083377934159053 / 8796093022208"
    by (rule round64_exact [where m = 6083377934159053 and e = "- 43"]) simp_all
  have i8: "round64 (4562533450619289 / 35184372088832) = 4562533450619289 / 35184372088832"
    by (rule round64_exact [where m = 4562533450619289 and e = "- 45"]) simp_all
  have t6: "fadd (6083377934159053 / 8796093022208) (4562533450619289 / 35184372088832) = 7224011296813875 / 8796093022208"
    unfolding fadd_def i7 i8
    by (subst round64_normal [where e = 9]) (simp_all add: roundHalfEven_def Let_def)
  have c1: "fmul (8) (6952431924753203 / 562949953421312) = 6952431924753203 / 70368744177664"
    unfolding fmul_def i1 i0
    by (subst round64_normal [where e = 6]) (simp_all add: roundHalfEven_def Let_def)
  have c2: "fmul (1) (6952431924753203 / 562949953421312) = 6952431924753203 / 562949953421312"
    unfolding fmul_def i4 i0
    by (subst round64_normal [where e = 3]) (simp_all add: roundHalfEven_def Let_def)
  have c3: "fmul (6952431924753203 / 562949953421312) (1.5) = 2607161971782451 / 140737488355328"
    unfolding fmul_def i0 i5
    by (subst round64_normal [where e = 4]) (simp_all add: roundHalfEven_def Let_def)
  have c4: "fadd (6952431924753203 / 70368744177664) (2607161971782451 / 140737488355328) = 2064003227661107 / 17592186044416"
    unfolding fadd_def i2 i6
    by (subst round64_normal [where e = 6]) (simp_all add: roundHalfEven_def Let_def)
  have i9: "round64 (2064003227661107 / 17592186044416) = 2064003227661107 / 17592186044416"
    by (rule round64_exact [where m = 2064003227661107 and e = "- 44"]) simp_all
  have c5: "fmul (2064003227661107 / 17592186044416) (7) = 3612005648406937 / 4398046511104"
    unfolding fmul_def i9 i3
    by (subst round64_normal [where e = 9]) (simp_all add: roundHalfEven_def Let_def)
  show "calculateTotalCost (6952431924753203 / 562949953421312) 8 1 (Some 1.5) 7 = 7224011296813875 / 8796093022208"
    by (simp only: calculateTotalCost_def Let_def option.case t1 t2 t3 t4 t5 t6)
  show "calculateCost 8 1 7 (6952431924753203 / 562949953421312) 1.5 = 3612005648406937 / 4398046511104"
    by (simp only: calculateCost_def Let_def c1 c2 c3 c4 c5)
qed

text \<open>
  C1. \<open>calculateTotalCost\<close> returns exactly the value of the expression
  \<open>rate * normalHours * workerCount + rate * overtimeHours * m * workerCount\<close> as the
  runtime evaluates it: every product and the sum rounded to binary64, and nothing else
  rounded. \<open>calculateCost\<close> returns the value of
  \<open>(normalHours * rate + overtimeHours * rate * m) * workerCount\<close>, evaluated in the same
  way. When none of the products and sums rounds (\<open>noRounding\<close>), both return the
  real number \<open>rate * normalHours * workerCount + rate * overtimeHours * m * workerCount\<close>.
\<close>

theorem cost_formula_exact:
  "calculateTotalCost r nh oh (Some m) wc =
     fadd (fmul (fmul r nh) wc) (fmul (fmul (fmul r oh) m) wc) \<and>
   calculateCost nh oh wc r m = fmul (fadd (fmul nh r) (fmul (fmul oh r) m)) wc \<and>
   (noRounding r nh oh m wc \<longrightarrow>
      calculateTotalCost r nh oh (Some m) wc = r * nh * wc + r * oh * m * wc \<and>
      calculateCost nh oh wc r m = r * nh * wc + r * oh * m * wc)"
  by (simp add: costs_without_rounding) (simp add: calculateTotalCost_def calculateCost_def)

theorem cost_formula_exact_witness:
  "noRounding 100 8 2 1.5 3 \<and>
   calculateTotalCost 100 8 2 (Some 1.5) 3 = 100 * 8 * 3 + 100 * 2 * 1.5 * 3 \<and>
   calculateCost 8 2 3 100 1.5 = 3300"
proof -
  have h: "noRounding 100 8 2 1.5 3"
    by (simp add: noRounding_def)
  show ?thesis
    using h cost_formula_exact [of 100 8 2 "1.5" 3] by simp
qed

text \<open>
  C1 as the specification words it has \<open>calculateCost\<close> too return exactly the value of
  \<open>rate * normalHours * workerCount + rate * overtimeHours * m * workerCount\<close>. At the rate
  written \<open>12.35\<close> it returns \<open>821.2749999999999\<close>, and the expression is \<open>821.275\<close>.
\<close>

theorem cost_formula_exact_counterexample:
  "calculateCost 8 1 7 (round64 (1235 / 100)) 1.5 = 3612005648406937 / 4398046511104 \<and>
   fadd (fmul (fmul (round64 (1235 / 100)) 8) 7)
        (fmul (fmul (fmul (round64 (1235 / 100)) 1) 1.5) 7) = 7224011296813875 / 8796093022208 \<and>
   calculateCost 8 1 7 (round64 (1235 / 100)) 1.5 \<noteq>
     fadd (fmul (fmul (round64 (1235 / 100)) 8) 7)
          (fmul (fmul (fmul (round64 (1235 / 100)) 1) 1.5) 7)"
proof -
  have total: "fadd (fmul (fmul (round64 (1235 / 100)) 8) 7)
      (fmul (fmul (fmul (round64 (1235 / 100)) 1) 1.5) 7) = 7224011296813875 / 8796093022208"
    using costs_at_1235(1) by (simp only: rate_1235 calculateTotalCost_def Let_def option.case)
  have form: "calculateCost 8 1 7 (round64 (1235 / 100)) 1.5 = 3612005648406937 / 4398046511104"
    by (simp only: rate_1235 costs_at_1235(2))
  show ?thesis
    unfolding total form by simp
qed

text \<open>
  C5. A missing multiplier is 1.5: \<open>calculateTotalCost\<close> called without the
  argument returns what it returns with 1.5, and an entry without
  \<open>overtime_multiplier\<close> is costed as the same entry with the multiplier 1.5.
\<close>

theorem missing_multiplier_is_default:
  "calculateTotalCost r nh oh None wc = calculateTotalCost r nh oh (Some 1.5) wc \<and>
   entryCost (e\<lparr>overtime_multiplier := None\<rparr>) =
     entryCost (e\<lparr>overtime_multiplier := Some 1.5\<rparr>)"
  by (simp add: calculateTotalCost_def entryCost_def entryMultiplier_def)

text \<open>
  C6. The two implementations of the formula return the same value when none of their
  products and sums rounds (\<open>noRounding\<close>), as with whole rates, hours and head counts
  and the multiplier 1.5. They associate the products differently, and when an
  operation rounds the two values can differ in the last bit.
\<close>

theorem cost_functions_agree:
  assumes "noRounding r nh oh m wc"
  shows "calculateTotalCost r nh oh (Some m) wc = calculateCost nh oh wc r m"
  by (simp only: costs_without_rounding [OF assms])

theorem cost_functions_agree_witness:
  "noRounding 60 8 1 1.5 2 \<and>
   calculateTotalCost 60 8 1 (Some 1.5) 2 = calculateCost 8 1 2 60 1.5"
proof -
  have h: "noRounding 60 8 1 1.5 2"
    by (simp add: noRounding_def)
  show ?thesis
    using h cost_functions_agree [OF h] by simp
qed

text \<open>
  C6 as the specification words it has the two functions return the same value for all
  inputs. At the rate written \<open>12.35\<close>, with 8 normal hours, 1 overtime hour, the
  multiplier 1.5 and 7 workers, \<open>calculateTotalCost\<close> returns \<open>821.275\<close> and
  \<open>calculateCost\<close> returns \<open>821.2749999999999\<close>.
\<close>

theorem cost_functions_agree_counterexample:
  "calculateTotalCost (round64 (1235 / 100)) 8 1 (Some 1.5) 7 = 7224011296813875 / 8796093022208 \<and>
   calculateCost 8 1 7 (round64 (1235 / 100)) 1.5 = 3612005648406937 / 4398046511104 \<and>
   calculateTotalCost (round64 (1235 / 100)) 8 1 (Some 1.5) 7 \<noteq>
     calculateCost 8 1 7 (round64 (1235 / 100)) 1.5"
  unfolding rate_1235 costs_at_1235 by simp


section \<open>The loop of the aggregator builds the sums\<close>

lemma map_entry_map:
  "distinct ks \<Longrightarrow>
   AList.map_entry d g (map (\<lambda>k. (k, f k)) ks) =
     map (\<lambda>k. (k, if k = d then g (f k) else f k)) ks"
  by (induction ks) auto

lemma map_entry_absent:
  "d \<notin> fst ` set al \<Longrightarrow> AList.map_entry d g (al @ [(d, v)]) = al @ [(d, g v)]"
  by (induction al) auto



lemma filter_key_absent:
  "c \<notin> f ` set es \<Longrightarrow> filter (\<lambda>e. f e = c) es = []"
  by (induction es) auto





lemma categoriesOf_snoc:
  "categoriesOf (es @ [e]) = accumulateCategory e (entryCost e) (categoriesOf es)"
  by (simp add: categoriesOf_def)


lemma reportOf_snoc_same:
  "addToReport e (entryCost e) (reportOf (dateOnlyOf e) es) = reportOf (dateOnlyOf e) (es @ [e])"
  by (simp add: addToReport_def reportOf_def dayEntries_def categoriesOf_snoc)

lemma reportOf_snoc_other:
  "d \<noteq> dateOnlyOf e \<Longrightarrow> reportOf d (es @ [e]) = reportOf d es"
  by (simp add: reportOf_def dayEntries_def)

lemma reportOf_new:
  "dateOnlyOf e \<notin> dateOnlyOf ` set es \<Longrightarrow>
   addToReport e (entryCost e) (newReport (dateOnlyOf e)) = reportOf (dateOnlyOf e) (es @ [e])"
  by (simp add: addToReport_def newReport_def reportOf_def dayEntries_def filter_key_absent
      categoriesOf_def)

lemma map_of_keyed: "map_of (map (\<lambda>k. (k, f k)) ks) d = (if d \<in> set ks then Some (f d) else None)"
  by (induction ks) auto

lemma groupStep_present:
  assumes "distinct ks" "dateOnlyOf e \<in> set ks"
  shows "groupStep (map (\<lambda>d. (d, reportOf d es)) ks) e =
           map (\<lambda>d. (d, reportOf d (es @ [e]))) ks"
proof -
  have "groupStep (map (\<lambda>d. (d, reportOf d es)) ks) e =
          AList.map_entry (dateOnlyOf e) (addToReport e (entryCost e))
            (map (\<lambda>d. (d, reportOf d es)) ks)"
    using assms(2) by (simp add: groupStep_def Let_def map_of_keyed)
  also have "\<dots> = map (\<lambda>d. (d, if d = dateOnlyOf e
                  then addToReport e (entryCost e) (reportOf d es) else reportOf d es)) ks"
    by (rule map_entry_map [OF assms(1)])
  also have "\<dots> = map (\<lambda>d. (d, reportOf d (es @ [e]))) ks"
    by (rule map_cong) (auto simp: reportOf_snoc_same reportOf_snoc_other)
  finally show ?thesis .
qed

lemma groupStep_absent:
  assumes "set ks = dateOnlyOf ` set es" "dateOnlyOf e \<notin> set ks"
  shows "groupStep (map (\<lambda>d. (d, reportOf d es)) ks) e =
           map (\<lambda>d. (d, reportOf d (es @ [e]))) (ks @ [dateOnlyOf e])"
proof -
  let ?al = "map (\<lambda>d. (d, reportOf d es)) ks"
  have absent: "dateOnlyOf e \<notin> fst ` set ?al"
    using assms(2) by (auto simp: image_iff)
  have others: "?al = map (\<lambda>d. (d, reportOf d (es @ [e]))) ks"
  proof (rule map_cong)
    fix d assume "d \<in> set ks"
    with assms(2) have "d \<noteq> dateOnlyOf e" by auto
    then show "(d, reportOf d es) = (d, reportOf d (es @ [e]))"
      by (simp add: reportOf_snoc_other)
  qed simp
  have "groupStep ?al e =
          AList.map_entry (dateOnlyOf e) (addToReport e (entryCost e))
            (?al @ [(dateOnlyOf e, newReport (dateOnlyOf e))])"
    using assms(2) by (simp add: groupStep_def Let_def map_of_keyed)
  also have "\<dots> = ?al @ [(dateOnlyOf e, addToReport e (entryCost e) (newReport (dateOnlyOf e)))]"
    by (rule map_entry_absent [OF absent])
  also have "\<dots> = ?al @ [(dateOnlyOf e, reportOf (dateOnlyOf e) (es @ [e]))]"
    using assms by (simp add: reportOf_new)
  finally have step:
    "groupStep ?al e = ?al @ [(dateOnlyOf e, reportOf (dateOnlyOf e) (es @ [e]))]" .
  show ?thesis
    by (simp only: step map_append list.map others [symmetric])
qed

lemma grouped_char:
  "\<exists>ks. distinct ks \<and> set ks = dateOnlyOf ` set es \<and>
        foldl groupStep [] es = map (\<lambda>d. (d, reportOf d es)) ks"
proof (induction es rule: rev_induct)
  case Nil
  show ?case by simp
next
  case (snoc e es)
  then obtain ks where ks: "distinct ks" "set ks = dateOnlyOf ` set es"
    "foldl groupStep [] es = map (\<lambda>d. (d, reportOf d es)) ks" by blast
  show ?case
  proof (cases "dateOnlyOf e \<in> set ks")
    case True
    have "foldl groupStep [] (es @ [e]) = map (\<lambda>d. (d, reportOf d (es @ [e]))) ks"
      by (simp add: ks(3) groupStep_present [OF ks(1) True])
    with ks True show ?thesis by (intro exI [of _ ks]) auto
  next
    case False
    have "foldl groupStep [] (es @ [e]) =
            map (\<lambda>d. (d, reportOf d (es @ [e]))) (ks @ [dateOnlyOf e])"
      by (simp only: foldl_append foldl.simps ks(3) groupStep_absent [OF ks(2) False])
    with ks False show ?thesis by (intro exI [of _ "ks @ [dateOnlyOf e]"]) auto
  qed
qed

subsection \<open>The sort\<close>

lemma compareReports_le: "compareReports a b \<le> 0 \<longleftrightarrow> date b \<le> date a"
  by (auto simp: compareReports_def localeCompare_def)

lemma set_insertReport: "set (insertReport a bs) = insert a (set bs)"
  by (induction bs) auto

lemma set_sortReports: "set (sortReports rs) = set rs"
  by (induction rs) (auto simp: sortReports_def set_insertReport)

lemma sorted_insertReport:
  "sorted_wrt (\<lambda>a b. date b < date a) bs \<Longrightarrow> date a \<notin> date ` set bs \<Longrightarrow>
   sorted_wrt (\<lambda>a b. date b < date a) (insertReport a bs)"
  by (induction bs) (auto simp: compareReports_le set_insertReport)

lemma sorted_sortReports:
  "distinct (map date rs) \<Longrightarrow> sorted_wrt (\<lambda>a b. date b < date a) (sortReports rs)"
proof (induction rs)
  case Nil
  show ?case by (simp add: sortReports_def)
next
  case (Cons r rs)
  then have "sorted_wrt (\<lambda>a b. date b < date a) (sortReports rs)"
    and "date r \<notin> date ` set (sortReports rs)"
    by (auto simp: set_sortReports)
  then have "sorted_wrt (\<lambda>a b. date b < date a) (insertReport r (sortReports rs))"
    by (rule sorted_insertReport)
  then show ?case by (simp add: sortReports_def)
qed

lemma descending_unique:
  fixes xs ys :: "string list"
  assumes "sorted_wrt (\<lambda>a b. b < a) xs" "sorted_wrt (\<lambda>a b. b < a) ys" "set xs = set ys"
  shows "xs = ys"
proof -
  have "sorted_wrt (<) (rev xs)" "sorted_wrt (<) (rev ys)"
    using assms(1,2) by (simp_all add: sorted_wrt_rev)
  then have "rev xs = rev ys"
    using assms(3) by (intro sorted_distinct_set_unique) (auto simp: strict_sorted_iff)
  then show ?thesis by simp
qed

text \<open>
  With one report for each date the result of the sort does not depend on the order of
  its input, so neither on the order in which \<open>Object.values\<close> lists the days.
\<close>

lemma sortReports_perm:
  assumes "mset rs = mset rs'" and "distinct (map date rs)"
  shows "sortReports rs = sortReports rs'"
proof -
  have sets: "set rs' = set rs"
    using assms(1) by (metis mset_eq_setD)
  have "mset (map date rs') = mset (map date rs)"
    using assms(1) by (metis mset_map)
  then have distinct': "distinct (map date rs')"
    using assms(2) by (metis mset_eq_imp_distinct_iff)
  have inj: "inj_on date (set rs)"
    using assms(2) by (simp add: distinct_map)
  have "map date (sortReports rs) = map date (sortReports rs')"
  proof (rule descending_unique)
    show "sorted_wrt (\<lambda>a b. b < a) (map date (sortReports rs))"
      using sorted_sortReports [OF assms(2)] by (simp add: sorted_wrt_map)
    show "sorted_wrt (\<lambda>a b. b < a) (map date (sortReports rs'))"
      using sorted_sortReports [OF distinct'] by (simp add: sorted_wrt_map)
    show "set (map date (sortReports rs)) = set (map date (sortReports rs'))"
      by (simp add: set_sortReports sets)
  qed
  moreover have "inj_on date (set (sortReports rs) \<union> set (sortReports rs'))"
    using inj by (simp add: set_sortReports sets)
  ultimately show ?thesis
    by (simp add: inj_on_map_eq_map)
qed

subsection \<open>Reordering the entries\<close>







subsection \<open>The reports returned\<close>

lemma groupEntriesByDate_char:
  "\<exists>ks. distinct ks \<and> set ks = dateOnlyOf ` set es \<and>
        groupEntriesByDate es = sortReports (map (\<lambda>d. reportOf d es) ks)"
proof -
  obtain ks where ks: "distinct ks" "set ks = dateOnlyOf ` set es"
    "foldl groupStep [] es = map (\<lambda>d. (d, reportOf d es)) ks"
    using grouped_char by blast
  have "groupEntriesByDate es = sortReports (map (\<lambda>d. reportOf d es) ks)"
    by (simp add: groupEntriesByDate_def ks(3) comp_def)
  with ks show ?thesis by blast
qed

lemma date_reportOf: "date (reportOf d es) = d"
  by (simp add: reportOf_def)



lemma descending_groupEntriesByDate:
  "sorted_wrt (\<lambda>a b. date b < date a) (groupEntriesByDate es)"
proof -
  obtain ks where ks: "distinct ks"
    "groupEntriesByDate es = sortReports (map (\<lambda>d. reportOf d es) ks)"
    using groupEntriesByDate_char by blast
  have "map date (map (\<lambda>d. reportOf d es) ks) = ks"
    by (simp add: comp_def date_reportOf)
  with ks(1) have "distinct (map date (map (\<lambda>d. reportOf d es) ks))" by simp
  then show ?thesis unfolding ks(2) by (rule sorted_sortReports)
qed



section \<open>Properties of the report aggregator\<close>

text \<open>
  The scenario of the specification: two entries of the same day for masons at 100 an
  hour, 8 normal and 2 overtime hours, 3 workers, multiplier 1.5, cost 3300 each. They
  give one report with 6 workers, a total cost of 6600 and one subtotal.
\<close>

lemma entryCost_examples: "entryCost masonEntry = 3300" "entryCost helperEntry = 960"
  by (simp_all add: masonEntry_def helperEntry_def entryCost_def entryMultiplier_def
      calculateTotalCost_def fmul_def fadd_def)

lemma dateOnlyOf_examples:
  "dateOnlyOf masonEntry = ''2025-06-01''" "dateOnlyOf helperEntry = ''2025-06-02''"
  by (simp_all add: masonEntry_def helperEntry_def dateOnlyOf_def)

lemma mason_scenario:
  "entryCost masonEntry = 3300 \<and>
   map (\<lambda>r. (date r, totalWorkers r, totalCost r, categories r))
     (groupEntriesByDate [masonEntry, masonEntry]) =
     [(''2025-06-01'', 6, 6600, [\<lparr>name = ''Mason'', workers = 6, cost = 6600\<rparr>])]"
  by (simp add: entryCost_examples dateOnlyOf_examples groupEntriesByDate_def groupStep_def
      Let_def newReport_def addToReport_def sortReports_def fadd_def)
     (simp add: masonEntry_def)

lemma split_str_takeWhile: "fst (split_str sep s) = takeWhile (\<lambda>c. c \<noteq> sep) s"
  by (induction s) (auto simp: case_prod_beta)

lemma dateOnlyOf_without_T:
  "CHR ''T'' \<notin> set (entry_date e) \<Longrightarrow> entry_date e \<noteq> [] \<Longrightarrow> dateOnlyOf e = entry_date e"
proof -
  assume "CHR ''T'' \<notin> set (entry_date e)" and nonempty: "entry_date e \<noteq> []"
  then have whole: "takeWhile (\<lambda>c. c \<noteq> CHR ''T'') (entry_date e) = entry_date e"
    by (auto simp: takeWhile_eq_all_conv)
  show ?thesis
    unfolding dateOnlyOf_def split_str_takeWhile whole Let_def using nonempty by simp
qed

text \<open>
  C2. Truncation of the stored date to the day. The entry dated
  \<open>2025-06-01T10:00:00\<close> falls in the group keyed \<open>2025-06-01\<close>. The entry dated
  \<open>2025-06-01 10:00:00\<close> does not: \<open>split("T")[0]\<close> of a string without \<open>T\<close> is the
  whole string, which is truthy, so the split on the space is not reached. The entry is
  keyed by its full timestamp, and the two entries end in two groups.
\<close>

theorem date_truncation_by_separator:
  "dateOnlyOf (e\<lparr>entry_date := ''2025-06-01T10:00:00''\<rparr>) = ''2025-06-01'' \<and>
   dateOnlyOf (e\<lparr>entry_date := ''2025-06-01 10:00:00''\<rparr>) = ''2025-06-01 10:00:00'' \<and>
   map date (groupEntriesByDate
      [e\<lparr>entry_date := ''2025-06-01T10:00:00''\<rparr>, e\<lparr>entry_date := ''2025-06-01 10:00:00''\<rparr>]) =
     [''2025-06-01 10:00:00'', ''2025-06-01'']"
  by (simp add: dateOnlyOf_def groupEntriesByDate_def groupStep_def Let_def newReport_def
      addToReport_def sortReports_def compareReports_def localeCompare_def)







text \<open>
  C4. For entries whose days are ISO date strings, the reports are returned in strictly
  descending order of their date strings; for entries of the days 2025-06-01,
  2025-06-03 and 2025-06-02 the order is 2025-06-03, 2025-06-02, 2025-06-01.
\<close>

theorem reports_descending_by_date:
  assumes "\<forall>x\<in>set es. isoDay (dateOnlyOf x)"
  shows "sorted_wrt (\<lambda>a b. date b < date a) (groupEntriesByDate es) \<and>
   map date (groupEntriesByDate
      [e\<lparr>entry_date := ''2025-06-01''\<rparr>, e\<lparr>entry_date := ''2025-06-03''\<rparr>,
       e\<lparr>entry_date := ''2025-06-02''\<rparr>]) =
     [''2025-06-03'', ''2025-06-02'', ''2025-06-01'']"
proof
  show "sorted_wrt (\<lambda>a b. date b < date a) (groupEntriesByDate es)"
    by (rule descending_groupEntriesByDate)
  show "map date (groupEntriesByDate
      [e\<lparr>entry_date := ''2025-06-01''\<rparr>, e\<lparr>entry_date := ''2025-06-03''\<rparr>,
       e\<lparr>entry_date := ''2025-06-02''\<rparr>]) =
     [''2025-06-03'', ''2025-06-02'', ''2025-06-01'']"
    by (simp add: dateOnlyOf_def groupEntriesByDate_def groupStep_def Let_def newReport_def
        addToReport_def sortReports_def compareReports_def localeCompare_def)
qed

theorem reports_descending_by_date_witness:
  "isoDay (dateOnlyOf masonEntry) \<and> isoDay (dateOnlyOf helperEntry) \<and>
   sorted_wrt (\<lambda>a b. date b < date a) (groupEntriesByDate [masonEntry, helperEntry]) \<and>
   map date (groupEntriesByDate [masonEntry, helperEntry]) = [''2025-06-02'', ''2025-06-01'']"
proof -
  have iso: "isoDay (dateOnlyOf masonEntry)" "isoDay (dateOnlyOf helperEntry)"
    by (simp_all add: dateOnlyOf_examples isoDay_def isDigit_def)
  then have days: "\<forall>x\<in>set [masonEntry, helperEntry]. isoDay (dateOnlyOf x)"
    by simp
  have v: "map date (groupEntriesByDate [masonEntry, helperEntry]) =
      [''2025-06-02'', ''2025-06-01'']"
    by (simp add: dateOnlyOf_examples groupEntriesByDate_def groupStep_def
        Let_def newReport_def addToReport_def sortReports_def compareReports_def
        localeCompare_def)
  show ?thesis
    using iso v reports_descending_by_date [OF days] by simp
qed

section \<open>Properties of the writes\<close>

text \<open>
  C7. Creating a category needs a name, a short code and an hourly rate above 0. With
  a draft that lacks one of them (an hourly rate of 0, for one), \<open>addCategory\<close> shows
  the notification ``Validation Error'', calls nothing and leaves the state as it was;
  and these are the only drafts for which no insert is made.
\<close>

theorem create_requires_valid_draft:
  "(insertsOf (snd (addCategory backend s)) = []) =
     (cat_name (newCategory s) = [] \<or> short_code (newCategory s) = [] \<or>
      hourly_rate (newCategory s) \<le> 0) \<and>
   (cat_name (newCategory s) = [] \<or> short_code (newCategory s) = [] \<or>
      hourly_rate (newCategory s) \<le> 0 \<longrightarrow>
    addCategory backend s =
      (s, [ShowToast ''Validation Error'' ''Fill all fields'' Destructive]))"
  by (auto simp: addCategory_def Let_def fetchCategories_def split: option.splits sum.splits)

theorem create_requires_valid_draft_witness:
  "hourly_rate (newCategory zeroRateManager) \<le> 0 \<and>
   insertsOf (snd (addCategory acceptingStore zeroRateManager)) = [] \<and>
   addCategory acceptingStore zeroRateManager =
     (zeroRateManager, [ShowToast ''Validation Error'' ''Fill all fields'' Destructive])"
proof -
  have h: "hourly_rate (newCategory zeroRateManager) \<le> 0"
    by (simp add: zeroRateManager_def)
  show ?thesis
    using h create_requires_valid_draft [of acceptingStore zeroRateManager] by simp
qed

text \<open>
  C8. \<open>saveDaily\<close> stops before any write when no site is chosen, when the draft list
  is empty, or when \<open>getUser\<close> gives an error or no user: no insert is made, one
  notification of the destructive variant is shown, and the state (the draft list with
  it) is as it was.
\<close>

theorem save_blocked_before_write:
  assumes "siteId s = [] \<or> form_entries s = [] \<or>
           fst (getUser backend) = None \<or> snd (getUser backend) \<noteq> None"
  shows "fst (saveDaily backend s) = s \<and>
         insertsOf (snd (saveDaily backend s)) = [] \<and>
         (\<exists>title description.
            toastsOf (snd (saveDaily backend s)) = [(title, description, Destructive)])"
  using assms
  by (cases "getUser backend") (auto simp: saveDaily_def split: option.splits)

theorem save_blocked_before_write_witness:
  "fst (getUser signedOutBackend) = None \<and>
   fst (saveDaily signedOutBackend filledForm) = filledForm \<and>
   insertsOf (snd (saveDaily signedOutBackend filledForm)) = [] \<and>
   form_entries (filledForm\<lparr>form_entries := []\<rparr>) = [] \<and>
   fst (saveDaily savingBackend (filledForm\<lparr>form_entries := []\<rparr>)) =
     filledForm\<lparr>form_entries := []\<rparr> \<and>
   insertsOf (snd (saveDaily savingBackend (filledForm\<lparr>form_entries := []\<rparr>))) = [] \<and>
   siteId (filledForm\<lparr>siteId := []\<rparr>) = [] \<and>
   fst (saveDaily savingBackend (filledForm\<lparr>siteId := []\<rparr>)) = filledForm\<lparr>siteId := []\<rparr> \<and>
   insertsOf (snd (saveDaily savingBackend (filledForm\<lparr>siteId := []\<rparr>))) = []"
proof -
  have h1: "fst (getUser signedOutBackend) = None"
    by (simp add: signedOutBackend_def)
  have h2: "form_entries (filledForm\<lparr>form_entries := []\<rparr>) = []"
    by simp
  have h3: "siteId (filledForm\<lparr>siteId := []\<rparr>) = []"
    by simp
  show ?thesis
    using h1 h2 h3
      save_blocked_before_write [of filledForm signedOutBackend]
      save_blocked_before_write [of "filledForm\<lparr>form_entries := []\<rparr>" savingBackend]
      save_blocked_before_write [of "filledForm\<lparr>siteId := []\<rparr>" savingBackend]
    by simp
qed

text \<open>
  C9. When the guards pass, \<open>saveDaily\<close> sends the whole draft list as one insert.
  If the store reports success the draft list is emptied (nothing else of the state
  changes) and ``Entries saved'' is shown; if it reports an error the state is as it was
  before the call, draft list included, and ``Save failed'' is shown with the message.
\<close>

theorem save_clears_or_keeps_drafts:
  assumes "siteId s \<noteq> []" and "form_entries s \<noteq> []" and "getUser backend = (Some user, None)"
    and "rows = map (formatRow (selectedDate s) (siteId s) user) (form_entries s)"
  shows "insertsOf (snd (saveDaily backend s)) = [rows] \<and>
         fst (saveDaily backend s) =
           (case insertDailyEntries backend rows of
              None \<Rightarrow> s\<lparr>form_entries := []\<rparr>
            | Some message \<Rightarrow> s) \<and>
         map (\<lambda>(title, description, v). (title, v)) (toastsOf (snd (saveDaily backend s))) =
           (case insertDailyEntries backend rows of
              None \<Rightarrow> [(''Entries saved'', Default)]
            | Some message \<Rightarrow> [(''Save failed'', Destructive)])"
  using assms by (auto simp: saveDaily_def Let_def split: option.splits)

theorem save_clears_or_keeps_drafts_witness:
  "form_entries (fst (saveDaily savingBackend filledForm)) = [] \<and>
   fst (saveDaily failingBackend filledForm) = filledForm \<and>
   form_entries (fst (saveDaily failingBackend filledForm)) = [masonDraft] \<and>
   insertsOf (snd (saveDaily savingBackend filledForm)) =
     [[formatRow ''2025-06-01'' ''site1'' supervisor masonDraft]]"
proof -
  have site: "siteId filledForm \<noteq> []" and drafts: "form_entries filledForm \<noteq> []"
    by (simp_all add: filledForm_def)
  have ok: "getUser savingBackend = (Some supervisor, None)"
    by (simp add: savingBackend_def)
  have ko: "getUser failingBackend = (Some supervisor, None)"
    by (simp add: failingBackend_def)
  show ?thesis
    using save_clears_or_keeps_drafts [OF site drafts ok refl]
      save_clears_or_keeps_drafts [OF site drafts ko refl]
    by (simp add: savingBackend_def failingBackend_def filledForm_def)
qed

end
